theory Spec2Isabelle
  imports Main
begin

section \<open>Python values\<close>

text \<open>
  A Python \<open>str\<close> is modelled by its UTF-8 encoding, one \<open>char\<close> per byte, and
  \<open>bytes\<close> by the same type. The values that \<open>response.json()\<close> can return are the
  JSON values; a \<open>dict\<close> is an association list read with \<open>map_of\<close>. Floating point
  numbers are left out: a JSON number is an integer here.
\<close>

datatype json =
    JNull
  | JBool bool
  | JNum int
  | JStr string
  | JArr "json list"
  | JObj "(string \<times> json) list"

text \<open>The truth value Python gives a value in \<open>if v:\<close>.\<close>

fun truthy :: "json \<Rightarrow> bool" where
  "truthy JNull = False"
| "truthy (JBool b) = b"
| "truthy (JNum n) = (n \<noteq> 0)"
| "truthy (JStr s) = (s \<noteq> [])"
| "truthy (JArr xs) = (xs \<noteq> [])"
| "truthy (JObj kvs) = (kvs \<noteq> [])"

section \<open>Exceptions\<close>

text \<open>
  Every exception class that the program can meet is a constructor. The messages of the
  exceptions that the program raises itself are f-strings; each template is a constructor
  of \<open>msg\<close> that holds the interpolated values:

  \<^item> \<open>DownloadTimeout url\<close>: "Timeout while downloading the image from {url}" (line 59)
  \<^item> \<open>DownloadError e\<close>: "Error while downloading the image: {e}" (line 63)
  \<^item> \<open>CreateDirError path e\<close>: "Error while creating folder {directory_path}: {e}" (line 95)
  \<^item> \<open>UploadUrlError e\<close>: "Error while getting the upload URL: {e}" (line 143)
  \<^item> \<open>MetadataError e\<close>: "Error while getting the file metadata: {e}" (line 171)
  \<^item> \<open>OperationFailed error_msg\<close>: "Error while uploading the file: {error_msg}" (line 203)
  \<^item> \<open>AttemptsExhausted n e\<close>: "Could not finish the operation after {max_attempts}
    attempts: {e}" (line 214)
  \<^item> \<open>UploadTimeout filename\<close>: "Timeout while uploading file {filename}" (line 258)
  \<^item> \<open>UploadError filename e\<close>: "Error while uploading file {filename}: {e}" (line 262)
  \<^item> \<open>SaveError filename e\<close>: "Error while saving file {filename}: {e}" (line 311)
  \<^item> \<open>EmptyText\<close>: "The text must not be empty!" (line 349)
\<close>

datatype exn =
    Timeout
  | ConnectionError
  | HTTPError int
  | JSONDecodeError
  | RequestException msg
  | AttributeError
  | KeyError string
  | TypeError
  | ValueError msg
  | OSError
  | EOFError
  | Exception msg
and msg =
    DownloadTimeout json
  | DownloadError exn
  | CreateDirError string exn
  | UploadUrlError exn
  | MetadataError exn
  | OperationFailed json
  | AttemptsExhausted nat exn
  | UploadTimeout string
  | UploadError string exn
  | SaveError string exn
  | EmptyText

text \<open>
  \<open>except requests.exceptions.RequestException\<close> catches the class and its subclasses:
  \<open>Timeout\<close>, \<open>ConnectionError\<close>, \<open>HTTPError\<close> and the \<open>JSONDecodeError\<close> of
  \<open>requests\<close> (a subclass of \<open>InvalidJSONError\<close>, itself a \<open>RequestException\<close>).
  \<open>except requests.exceptions.Timeout\<close> catches \<open>Timeout\<close> only.
\<close>

fun is_RequestException :: "exn \<Rightarrow> bool" where
  "is_RequestException Timeout = True"
| "is_RequestException ConnectionError = True"
| "is_RequestException (HTTPError c) = True"
| "is_RequestException JSONDecodeError = True"
| "is_RequestException (RequestException m) = True"
| "is_RequestException e = False"

fun is_Timeout :: "exn \<Rightarrow> bool" where
  "is_Timeout Timeout = True"
| "is_Timeout e = False"

section \<open>HTTP\<close>

record response =
  status_code :: int
  content :: string
  body :: "json option"

text \<open>
  \<open>body\<close> is what \<open>response.json()\<close> parses out of the response, \<open>None\<close> when the
  content is not JSON. \<open>raise_for_status\<close> raises \<open>HTTPError\<close> for the client and
  server error classes, 400 to 599.
\<close>

definition response_json :: "response \<Rightarrow> exn + json" where
  "response_json r = (case body r of None \<Rightarrow> Inl JSONDecodeError | Some j \<Rightarrow> Inr j)"

definition raise_for_status :: "response \<Rightarrow> exn + unit" where
  "raise_for_status r =
     (if 400 \<le> status_code r \<and> status_code r < 600 then Inl (HTTPError (status_code r))
      else Inr ())"

text \<open>\<open>d.get(key, default)\<close>; a value that is no \<open>dict\<close> has no \<open>get\<close>.\<close>

fun py_get :: "json \<Rightarrow> string \<Rightarrow> json \<Rightarrow> exn + json" where
  "py_get (JObj kvs) k dflt = Inr (case map_of kvs k of None \<Rightarrow> dflt | Some v \<Rightarrow> v)"
| "py_get v k dflt = Inl AttributeError"

text \<open>\<open>d[key]\<close>: \<open>KeyError\<close> on a missing key, \<open>TypeError\<close> where the value is no \<open>dict\<close>.\<close>

fun py_item :: "json \<Rightarrow> string \<Rightarrow> exn + json" where
  "py_item (JObj kvs) k = (case map_of kvs k of None \<Rightarrow> Inl (KeyError k) | Some v \<Rightarrow> Inr v)"
| "py_item v k = Inl TypeError"

datatype http_method = GET | PUT

record request =
  http_method :: http_method
  url :: json
  headers :: "(string \<times> string) list"
  params :: "(string \<times> string) list"
  payload :: "string option"
  timeout :: nat

text \<open>
  The outside world. A call of \<open>requests.get\<close> or \<open>requests.put\<close> either raises (a
  timeout, or another transport failure) or returns a response. The world is the sequence
  of the outcomes of the HTTP calls still to come: a call takes the first one. Every effect
  is appended to the trace. The URL of a request is a Python value, since two of them are
  read out of JSON answers. In the same way \<open>clock\<close> holds the values of the calls of
  \<open>datetime.now()\<close> to come and \<open>stdin\<close> the lines that \<open>input()\<close> will read
  (\<open>None\<close> at the end of the input). \<open>environ\<close> is the process environment after
  \<open>load_dotenv()\<close>, \<open>files\<close> the JSON documents held by the local files, and
  \<open>can_open\<close> tells whether \<open>open(name, "w")\<close> succeeds. Console output is not
  modelled.
\<close>

datatype http_result = TimedOut | Unreachable | Responded response

datatype event =
    Http request
  | Sleep nat
  | Getenv string
  | Input
  | Open string

record datetime =
  year :: nat
  month :: nat
  day :: nat
  hour :: nat
  minute :: nat
  second :: nat
  microsecond :: nat

record io =
  pending :: "nat \<Rightarrow> http_result"
  clock :: "nat \<Rightarrow> datetime"
  environ :: "string \<Rightarrow> string option"
  stdin :: "nat \<Rightarrow> string option"
  can_open :: "string \<Rightarrow> bool"
  files :: "string \<Rightarrow> json option"
  trace :: "event list"

definition send :: "request \<Rightarrow> io \<Rightarrow> (exn + response) \<times> io" where
  "send rq w =
     ((case pending w 0 of
         TimedOut \<Rightarrow> Inl Timeout
       | Unreachable \<Rightarrow> Inl ConnectionError
       | Responded r \<Rightarrow> Inr r),
      w\<lparr>pending := (\<lambda>n. pending w (Suc n)), trace := trace w @ [Http rq]\<rparr>)"

definition sleep :: "nat \<Rightarrow> io \<Rightarrow> io" where
  "sleep seconds w = w\<lparr>trace := trace w @ [Sleep seconds]\<rparr>"

section \<open>The class CatCloudBackup\<close>

record self =
  yandex_token :: string
  group_name :: string
  uploaded_files_info :: "json list"

definition YANDEX_API_BASE_URL :: string where
  "YANDEX_API_BASE_URL = ''https://cloud-api.yandex.net/v1/disk''"

definition CAT_API_BASE_URL :: string where
  "CAT_API_BASE_URL = ''https://cataas.com/cat/says''"

definition REQUEST_TIMEOUT :: nat where
  "REQUEST_TIMEOUT = 30"

definition get_authorization_headers :: "self \<Rightarrow> (string \<times> string) list" where
  "get_authorization_headers s = [(''Authorization'', ''OAuth '' @ yandex_token s)]"

subsection \<open>Waiting for an asynchronous operation\<close>

definition max_attempts :: nat where
  "max_attempts = 10"

text \<open>The default of \<open>operation_status.get("message", ...)\<close>, "Unknown error" in Russian.\<close>

definition unknown_error :: string where
  "unknown_error = map char_of
     [0xD0, 0x9D, 0xD0, 0xB5, 0xD0, 0xB8, 0xD0, 0xB7, 0xD0, 0xB2, 0xD0, 0xB5, 0xD1, 0x81,
      0xD1, 0x82, 0xD0, 0xBD, 0xD0, 0xB0, 0xD1, 0x8F, 0x20, 0xD0, 0xBE, 0xD1, 0x88, 0xD0,
      0xB8, 0xD0, 0xB1, 0xD0, 0xBA, 0xD0, 0xB0 :: nat]"

text \<open>
  How one pass through the body of the \<open>for\<close> loop ends when nothing is raised: the
  function returns, or the loop goes on with the given value of \<open>delay_seconds\<close>.
\<close>

datatype flow = Return | Next_attempt nat

text \<open>The \<open>try\<close> block of lines 190 to 209, at attempt \<open>attempt\<close> with delay \<open>delay\<close>.\<close>

definition poll_try :: "self \<Rightarrow> json \<Rightarrow> nat \<Rightarrow> nat \<Rightarrow> io \<Rightarrow> (exn + flow) \<times> io" where
  "poll_try s operation_url attempt delay_seconds w =
     (case send \<lparr>http_method = GET, url = operation_url,
                  headers = get_authorization_headers s, params = [],
                  payload = None, timeout = REQUEST_TIMEOUT\<rparr> w of
        (Inl e, w1) \<Rightarrow> (Inl e, w1)
      | (Inr r, w1) \<Rightarrow>
          (case raise_for_status r of
             Inl e \<Rightarrow> (Inl e, w1)
           | Inr _ \<Rightarrow>
               (case response_json r of
                  Inl e \<Rightarrow> (Inl e, w1)
                | Inr operation_status \<Rightarrow>
                    (case py_get operation_status ''status'' JNull of
                       Inl e \<Rightarrow> (Inl e, w1)
                     | Inr st \<Rightarrow>
                         if st = JStr ''success'' then (Inr Return, w1)
                         else if st = JStr ''failed'' then
                           (case py_get operation_status ''message'' (JStr unknown_error) of
                              Inl e \<Rightarrow> (Inl e, w1)
                            | Inr error_msg \<Rightarrow>
                                (Inl (RequestException (OperationFailed error_msg)), w1))
                         else if st = JStr ''in-progress'' then
                           (if attempt < max_attempts - 1
                            then (Inr (Next_attempt (delay_seconds * 2)), sleep delay_seconds w1)
                            else (Inr (Next_attempt delay_seconds), w1))
                         else (Inr (Next_attempt delay_seconds), w1)))))"

text \<open>
  The loop \<open>for attempt in range(max_attempts)\<close> with its \<open>except\<close> clause (lines 211
  to 215): a \<open>RequestException\<close> raised in the \<open>try\<close> block is caught, and raised again
  (wrapped) only at the last attempt; any other exception leaves the function. When the
  loop runs out, the function returns \<open>None\<close>.
\<close>

function wait_loop :: "self \<Rightarrow> json \<Rightarrow> nat \<Rightarrow> nat \<Rightarrow> io \<Rightarrow> (exn + unit) \<times> io" where
  "wait_loop s operation_url attempt delay_seconds w =
     (if attempt < max_attempts then
        (case poll_try s operation_url attempt delay_seconds w of
           (Inr Return, w1) \<Rightarrow> (Inr (), w1)
         | (Inr (Next_attempt d), w1) \<Rightarrow> wait_loop s operation_url (Suc attempt) d w1
         | (Inl e, w1) \<Rightarrow>
             if is_RequestException e then
               (if attempt = max_attempts - 1
                then (Inl (RequestException (AttemptsExhausted max_attempts e)), w1)
                else wait_loop s operation_url (Suc attempt) delay_seconds w1)
             else (Inl e, w1))
      else (Inr (), w))"
  by pat_completeness auto
termination
  by (relation "measure (\<lambda>(s, u, attempt, d, w). max_attempts - attempt)") auto

declare wait_loop.simps [simp del]

definition wait_for_operation_completion :: "self \<Rightarrow> json \<Rightarrow> io \<Rightarrow> (exn + unit) \<times> io" where
  "wait_for_operation_completion s operation_url w = wait_loop s operation_url 0 1 w"

subsection \<open>The clock\<close>

definition now :: "io \<Rightarrow> datetime \<times> io" where
  "now w = (clock w 0, w\<lparr>clock := (\<lambda>n. clock w (Suc n))\<rparr>)"

definition digit_char :: "nat \<Rightarrow> char" where
  "digit_char d = ''0123456789'' ! (d mod 10)"

text \<open>The decimal digits of \<open>n\<close> in a field of the given width, filled with zeros.\<close>

definition zero_pad :: "nat \<Rightarrow> nat \<Rightarrow> string" where
  "zero_pad width n = map (\<lambda>i. digit_char (n div 10 ^ (width - Suc i))) [0..<width]"

text \<open>\<open>strftime("%Y%m%d_%H%M%S_%f")\<close>\<close>

definition strftime_stamp :: "datetime \<Rightarrow> string" where
  "strftime_stamp t =
     zero_pad 4 (year t) @ zero_pad 2 (month t) @ zero_pad 2 (day t) @ ''_'' @
     zero_pad 2 (hour t) @ zero_pad 2 (minute t) @ zero_pad 2 (second t) @ ''_'' @
     zero_pad 6 (microsecond t)"

text \<open>\<open>isoformat()\<close>; the microseconds are left out when they are zero.\<close>

definition isoformat :: "datetime \<Rightarrow> string" where
  "isoformat t =
     zero_pad 4 (year t) @ ''-'' @ zero_pad 2 (month t) @ ''-'' @ zero_pad 2 (day t) @ ''T'' @
     zero_pad 2 (hour t) @ '':'' @ zero_pad 2 (minute t) @ '':'' @ zero_pad 2 (second t) @
     (if microsecond t = 0 then [] else ''.'' @ zero_pad 6 (microsecond t))"

subsection \<open>Downloading the image\<close>

text \<open>
  The clauses \<open>except Timeout\<close> and \<open>except RequestException as e\<close> of lines 57 to 64:
  a timeout and any other request exception are raised again as a \<open>RequestException\<close>
  with a message of its own; another exception passes.
\<close>

definition download_except :: "json \<Rightarrow> exn \<Rightarrow> exn" where
  "download_except u e =
     (if is_Timeout e then RequestException (DownloadTimeout u)
      else if is_RequestException e then RequestException (DownloadError e)
      else e)"

definition download_cat_image :: "self \<Rightarrow> string \<Rightarrow> io \<Rightarrow> (exn + string) \<times> io" where
  "download_cat_image s text w =
     (let u = JStr (CAT_API_BASE_URL @ ''/'' @ text) in
      case send \<lparr>http_method = GET, url = u, headers = [], params = [],
                 payload = None, timeout = REQUEST_TIMEOUT\<rparr> w of
        (Inl e, w1) \<Rightarrow> (Inl (download_except u e), w1)
      | (Inr r, w1) \<Rightarrow>
          (case raise_for_status r of
             Inl e \<Rightarrow> (Inl (download_except u e), w1)
           | Inr _ \<Rightarrow> (Inr (content r), w1)))"

subsection \<open>Creating the remote folder\<close>

text \<open>
  \<open>except RequestException as e: raise RequestException(f"...{e}")\<close>, as lines 93, 141,
  169 have it: a request exception is wrapped in the message, another exception passes.
\<close>

definition except_RequestException :: "(exn \<Rightarrow> msg) \<Rightarrow> exn \<Rightarrow> exn" where
  "except_RequestException m e = (if is_RequestException e then RequestException (m e) else e)"

definition create_remote_directory :: "self \<Rightarrow> string \<Rightarrow> io \<Rightarrow> (exn + unit) \<times> io" where
  "create_remote_directory s directory_path w =
     (case send \<lparr>http_method = PUT, url = JStr (YANDEX_API_BASE_URL @ ''/resources''),
                  headers = get_authorization_headers s,
                  params = [(''path'', directory_path)],
                  payload = None, timeout = REQUEST_TIMEOUT\<rparr> w of
        (Inl e, w1) \<Rightarrow> (Inl (except_RequestException (CreateDirError directory_path) e), w1)
      | (Inr r, w1) \<Rightarrow>
          if status_code r = 409 then (Inr (), w1)
          else
            (case raise_for_status r of
               Inl e \<Rightarrow> (Inl (except_RequestException (CreateDirError directory_path) e), w1)
             | Inr _ \<Rightarrow> (Inr (), w1)))"

subsection \<open>The file name\<close>

text \<open>
  The string of line 109, ten characters: space, slash, backslash, colon, asterisk,
  question mark, double quote, less-than, greater-than and vertical bar.
\<close>

definition forbidden_chars :: string where
  "forbidden_chars =
     [CHR '' '', CHR ''/'', CHR 0x5C, CHR '':'', CHR ''*'', CHR ''?'', CHR 0x22,
      CHR ''<'', CHR ''>'', CHR ''|'']"

text \<open>\<open>s.replace(old, new)\<close> for strings \<open>old\<close> and \<open>new\<close> of one character.\<close>

definition str_replace :: "char \<Rightarrow> char \<Rightarrow> string \<Rightarrow> string" where
  "str_replace old new s = map (\<lambda>c. if c = old then new else c) s"

definition generate_filename :: "self \<Rightarrow> string \<Rightarrow> io \<Rightarrow> string \<times> io" where
  "generate_filename s text w =
     (let filename = foldl (\<lambda>name c. str_replace c (CHR ''_'') name) text forbidden_chars;
          (t, w1) = now w;
          stamp = strftime_stamp t;
          timestamp = take (length stamp - 3) stamp
      in (filename @ ''_'' @ timestamp @ ''.jpg'', w1))"

subsection \<open>Upload URL and metadata\<close>

definition get_upload_url :: "self \<Rightarrow> string \<Rightarrow> io \<Rightarrow> (exn + json) \<times> io" where
  "get_upload_url s remote_path w =
     (case send \<lparr>http_method = GET, url = JStr (YANDEX_API_BASE_URL @ ''/resources/upload''),
                  headers = get_authorization_headers s,
                  params = [(''path'', remote_path), (''overwrite'', ''true'')],
                  payload = None, timeout = REQUEST_TIMEOUT\<rparr> w of
        (Inl e, w1) \<Rightarrow> (Inl (except_RequestException UploadUrlError e), w1)
      | (Inr r, w1) \<Rightarrow>
          (case raise_for_status r of
             Inl e \<Rightarrow> (Inl (except_RequestException UploadUrlError e), w1)
           | Inr _ \<Rightarrow>
               (case response_json r of
                  Inl e \<Rightarrow> (Inl (except_RequestException UploadUrlError e), w1)
                | Inr j \<Rightarrow>
                    (case py_item j ''href'' of
                       Inl e \<Rightarrow> (Inl (except_RequestException UploadUrlError e), w1)
                     | Inr href \<Rightarrow> (Inr href, w1)))))"

definition get_file_metadata :: "self \<Rightarrow> string \<Rightarrow> io \<Rightarrow> (exn + json) \<times> io" where
  "get_file_metadata s remote_path w =
     (case send \<lparr>http_method = GET, url = JStr (YANDEX_API_BASE_URL @ ''/resources''),
                  headers = get_authorization_headers s,
                  params = [(''path'', remote_path)],
                  payload = None, timeout = REQUEST_TIMEOUT\<rparr> w of
        (Inl e, w1) \<Rightarrow> (Inl (except_RequestException MetadataError e), w1)
      | (Inr r, w1) \<Rightarrow>
          (case raise_for_status r of
             Inl e \<Rightarrow> (Inl (except_RequestException MetadataError e), w1)
           | Inr _ \<Rightarrow>
               (case response_json r of
                  Inl e \<Rightarrow> (Inl (except_RequestException MetadataError e), w1)
                | Inr j \<Rightarrow> (Inr j, w1))))"

subsection \<open>Uploading\<close>

text \<open>
  Lines 246 to 254: the metadata are fetched and the record is built. The three calls of
  \<open>get\<close> are evaluated in the order of the dictionary display, each default before its
  call, so the clock is read twice when \<open>file_metadata\<close> is a \<open>dict\<close>.
\<close>

definition file_record :: "self \<Rightarrow> string \<Rightarrow> string \<Rightarrow> string \<Rightarrow> io \<Rightarrow> (exn + json) \<times> io" where
  "file_record s file_data filename remote_path w =
     (case get_file_metadata s remote_path w of
        (Inl e, w1) \<Rightarrow> (Inl e, w1)
      | (Inr file_metadata, w1) \<Rightarrow>
          (case py_get file_metadata ''size'' (JNum (int (length file_data))) of
             Inl e \<Rightarrow> (Inl e, w1)
           | Inr sz \<Rightarrow>
               (let (t1, w2) = now w1 in
                case py_get file_metadata ''created'' (JStr (isoformat t1)) of
                  Inl e \<Rightarrow> (Inl e, w2)
                | Inr created \<Rightarrow>
                    (let (t2, w3) = now w2 in
                     case py_get file_metadata ''modified'' (JStr (isoformat t2)) of
                       Inl e \<Rightarrow> (Inl e, w3)
                     | Inr modified \<Rightarrow>
                         (Inr (JObj [(''name'', JStr filename),
                                     (''path'', JStr remote_path),
                                     (''size'', sz),
                                     (''created'', created),
                                     (''modified'', modified)]), w3)))))"

text \<open>The \<open>try\<close> block of lines 231 to 254.\<close>

definition upload_try :: "self \<Rightarrow> string \<Rightarrow> string \<Rightarrow> string \<Rightarrow> io \<Rightarrow> (exn + json) \<times> io" where
  "upload_try s file_data filename remote_path w =
     (case get_upload_url s remote_path w of
        (Inl e, w1) \<Rightarrow> (Inl e, w1)
      | (Inr upload_url, w1) \<Rightarrow>
          (case send \<lparr>http_method = PUT, url = upload_url, headers = [], params = [],
                       payload = Some file_data, timeout = 60\<rparr> w1 of
             (Inl e, w2) \<Rightarrow> (Inl e, w2)
           | (Inr r, w2) \<Rightarrow>
               (case raise_for_status r of
                  Inl e \<Rightarrow> (Inl e, w2)
                | Inr _ \<Rightarrow>
                    if status_code r = 202 then
                      (case response_json r of
                         Inl e \<Rightarrow> (Inl e, w2)
                       | Inr j \<Rightarrow>
                           (case py_get j ''href'' JNull of
                              Inl e \<Rightarrow> (Inl e, w2)
                            | Inr operation_url \<Rightarrow>
                                if truthy operation_url then
                                  (case wait_for_operation_completion s operation_url w2 of
                                     (Inl e, w3) \<Rightarrow> (Inl e, w3)
                                   | (Inr _, w3) \<Rightarrow>
                                       file_record s file_data filename remote_path w3)
                                else file_record s file_data filename remote_path w2))
                    else file_record s file_data filename remote_path w2)))"

definition upload_except :: "string \<Rightarrow> exn \<Rightarrow> exn" where
  "upload_except filename e =
     (if is_Timeout e then RequestException (UploadTimeout filename)
      else if is_RequestException e then RequestException (UploadError filename e)
      else e)"

definition upload_file_to_disk :: "self \<Rightarrow> string \<Rightarrow> string \<Rightarrow> io \<Rightarrow> (exn + json) \<times> io" where
  "upload_file_to_disk s file_data filename w =
     (let remote_path = ''/'' @ group_name s @ ''/'' @ filename in
      case upload_try s file_data filename remote_path w of
        (Inl e, w1) \<Rightarrow> (Inl (upload_except filename e), w1)
      | (Inr file_info, w1) \<Rightarrow> (Inr file_info, w1))"

subsection \<open>The backup of one image\<close>

text \<open>The method returns the record together with the object, whose list it has extended.\<close>

definition backup_cat_image :: "self \<Rightarrow> string \<Rightarrow> io \<Rightarrow> (exn + json) \<times> self \<times> io" where
  "backup_cat_image s text w =
     (case create_remote_directory s (''/'' @ group_name s) w of
        (Inl e, w1) \<Rightarrow> (Inl e, s, w1)
      | (Inr _, w1) \<Rightarrow>
          (case download_cat_image s text w1 of
             (Inl e, w2) \<Rightarrow> (Inl e, s, w2)
           | (Inr image_data, w2) \<Rightarrow>
               (let (filename, w3) = generate_filename s text w2 in
                case upload_file_to_disk s image_data filename w3 of
                  (Inl e, w4) \<Rightarrow> (Inl e, s, w4)
                | (Inr file_info, w4) \<Rightarrow>
                    (Inr file_info,
                     s\<lparr>uploaded_files_info := uploaded_files_info s @ [file_info]\<rparr>,
                     w4))))"

subsection \<open>Saving the records\<close>

text \<open>
  \<open>sum(file_info["size"] for file_info in ...)\<close> adds to the integer 0 from left to
  right: a value that is no number raises \<open>TypeError\<close>, and \<open>True\<close> counts as 1.
\<close>

fun py_number :: "json \<Rightarrow> exn + int" where
  "py_number (JNum n) = Inr n"
| "py_number (JBool b) = Inr (if b then 1 else 0)"
| "py_number v = Inl TypeError"

fun sum_sizes :: "json list \<Rightarrow> int \<Rightarrow> exn + int" where
  "sum_sizes [] acc = Inr acc"
| "sum_sizes (file_info # rest) acc =
     (case py_item file_info ''size'' of
        Inl e \<Rightarrow> Inl e
      | Inr v \<Rightarrow> (case py_number v of Inl e \<Rightarrow> Inl e | Inr n \<Rightarrow> sum_sizes rest (acc + n)))"

text \<open>
  \<open>json.dump\<close> into the opened file is modelled by storing the document under the file
  name; its rendering as text (\<open>ensure_ascii=False, indent=2\<close>) is not modelled.
\<close>

definition save_backup_info :: "self \<Rightarrow> string \<Rightarrow> io \<Rightarrow> (exn + unit) \<times> io" where
  "save_backup_info s filename w =
     (let (t, w1) = now w in
      case sum_sizes (uploaded_files_info s) 0 of
        Inl e \<Rightarrow> (Inl e, w1)
      | Inr total_size \<Rightarrow>
          (let backup_data = JObj
                 [(''group_name'', JStr (group_name s)),
                  (''backup_date'', JStr (isoformat t)),
                  (''files'', JArr (uploaded_files_info s)),
                  (''total_files'', JNum (int (length (uploaded_files_info s)))),
                  (''total_size'', JNum total_size)];
               w2 = w1\<lparr>trace := trace w1 @ [Open filename]\<rparr>
           in if can_open w2 filename
              then (Inr (), w2\<lparr>files := (files w2)(filename := Some backup_data)\<rparr>)
              else (Inl (Exception (SaveError filename OSError)), w2)))"

text \<open>The default value of the parameter \<open>filename\<close> of \<open>save_backup_info\<close>.\<close>

definition default_backup_filename :: string where
  "default_backup_filename = ''backup_info.json''"

section \<open>The program\<close>

definition getenv :: "string \<Rightarrow> io \<Rightarrow> string option \<times> io" where
  "getenv name w = (environ w name, w\<lparr>trace := trace w @ [Getenv name]\<rparr>)"

definition py_input :: "io \<Rightarrow> (exn + string) \<times> io" where
  "py_input w =
     ((case stdin w 0 of None \<Rightarrow> Inl EOFError | Some line \<Rightarrow> Inr line),
      w\<lparr>stdin := (\<lambda>n. stdin w (Suc n)), trace := trace w @ [Input]\<rparr>)"

text \<open>\<open>str.strip()\<close>, for the white space of ASCII.\<close>

definition is_space :: "char \<Rightarrow> bool" where
  "is_space c = (c \<in> set (map char_of [9, 10, 11, 12, 13, 28, 29, 30, 31, 32 :: nat]))"

definition py_strip :: "string \<Rightarrow> string" where
  "py_strip s = rev (dropWhile is_space (rev (dropWhile is_space s)))"

definition get_yandex_token :: "io \<Rightarrow> (exn + string) \<times> io" where
  "get_yandex_token w =
     (case getenv ''YANDEX_TOKEN'' w of
        (Some t, w1) \<Rightarrow>
          if t \<noteq> [] then (Inr t, w1)
          else (case py_input w1 of
                  (Inl e, w2) \<Rightarrow> (Inl e, w2)
                | (Inr line, w2) \<Rightarrow> (Inr (py_strip line), w2))
      | (None, w1) \<Rightarrow>
          (case py_input w1 of
             (Inl e, w2) \<Rightarrow> (Inl e, w2)
           | (Inr line, w2) \<Rightarrow> (Inr (py_strip line), w2)))"

text \<open>The default folder name of line 334, the Russian name of Netology in UTF-8.\<close>

definition default_group_name :: string where
  "default_group_name = map char_of
     [0xD0, 0x9D, 0xD0, 0xB5, 0xD1, 0x82, 0xD0, 0xBE, 0xD0, 0xBB, 0xD0, 0xBE, 0xD0, 0xB3,
      0xD0, 0xB8, 0xD1, 0x8F :: nat]"

definition get_group_name :: "io \<Rightarrow> string \<times> io" where
  "get_group_name w =
     (case getenv ''GROUP_NAME'' w of
        (Some g, w1) \<Rightarrow> (g, w1)
      | (None, w1) \<Rightarrow> (default_group_name, w1))"

definition get_text_from_user :: "io \<Rightarrow> (exn + string) \<times> io" where
  "get_text_from_user w =
     (case py_input w of
        (Inl e, w1) \<Rightarrow> (Inl e, w1)
      | (Inr line, w1) \<Rightarrow>
          if py_strip line = [] then (Inl (ValueError EmptyText), w1)
          else (Inr (py_strip line), w1))"

text \<open>The \<open>try\<close> block of \<open>main\<close>, lines 407 to 427.\<close>

definition main_try :: "io \<Rightarrow> (exn + unit) \<times> io" where
  "main_try w =
     (case get_yandex_token w of
        (Inl e, w1) \<Rightarrow> (Inl e, w1)
      | (Inr token, w1) \<Rightarrow>
          (let (group, w2) = get_group_name w1 in
           case get_text_from_user w2 of
             (Inl e, w3) \<Rightarrow> (Inl e, w3)
           | (Inr text, w3) \<Rightarrow>
               (let backup = \<lparr>yandex_token = token, group_name = group,
                               uploaded_files_info = []\<rparr> in
                case backup_cat_image backup text w3 of
                  (Inl e, backup1, w4) \<Rightarrow> (Inl e, w4)
                | (Inr file_info, backup1, w4) \<Rightarrow>
                    save_backup_info backup1 default_backup_filename w4)))"

text \<open>
  The three \<open>except\<close> clauses of \<open>main\<close> catch every exception and print a report, so
  \<open>main\<close> always returns; the result tells whether the \<open>try\<close> block ran to its end.
\<close>

datatype report = Completed | Reported exn

definition main :: "io \<Rightarrow> report \<times> io" where
  "main w = (case main_try w of (Inr _, w1) \<Rightarrow> (Completed, w1) | (Inl e, w1) \<Rightarrow> (Reported e, w1))"

section \<open>Notions used in the properties\<close>

subsection \<open>Status answers and the events of the poll loop\<close>

text \<open>
  An outcome of a status request reports the status \<open>st\<close> when it is a response that
  \<open>raise_for_status\<close> accepts and whose JSON body is an object with \<open>"status": st\<close>.
\<close>

fun reports :: "http_result \<Rightarrow> string \<Rightarrow> bool" where
  "reports (Responded r) st =
     (raise_for_status r = Inr () \<and>
      (case body r of Some (JObj kvs) \<Rightarrow> map_of kvs ''status'' = Some (JStr st) | _ \<Rightarrow> False))"
| "reports x st = False"

text \<open>The request of lines 190 to 194.\<close>

definition status_request :: "self \<Rightarrow> json \<Rightarrow> request" where
  "status_request s operation_url =
     \<lparr>http_method = GET, url = operation_url, headers = get_authorization_headers s,
      params = [], payload = None, timeout = REQUEST_TIMEOUT\<rparr>"

fun is_http :: "event \<Rightarrow> bool" where
  "is_http (Http rq) = True"
| "is_http e = False"

text \<open>How many of the outcomes before the \<open>i\<close>-th one report "in-progress".\<close>

definition in_progress_before :: "io \<Rightarrow> nat \<Rightarrow> nat" where
  "in_progress_before w i = length (filter (\<lambda>j. reports (pending w j) ''in-progress'') [0..<i])"

text \<open>
  The events of attempt \<open>a + i\<close> of a loop that is entered at attempt \<open>a\<close> with the
  delay \<open>d\<close>, in a world whose outcome \<open>i\<close> answers that attempt: the request, followed
  by a sleep when the answer reports "in-progress" and the attempt is not the last one.
\<close>

definition loop_events :: "self \<Rightarrow> json \<Rightarrow> nat \<Rightarrow> nat \<Rightarrow> io \<Rightarrow> nat \<Rightarrow> event list" where
  "loop_events s u a d w i =
     Http (status_request s u) #
     (if reports (pending w i) ''in-progress'' \<and> Suc (a + i) < max_attempts
      then [Sleep (d * 2 ^ in_progress_before w i)] else [])"

text \<open>The same for the whole function: the loop starts at attempt 0 with a delay of 1.\<close>

definition poll_events :: "self \<Rightarrow> json \<Rightarrow> io \<Rightarrow> nat \<Rightarrow> event list" where
  "poll_events s u w i =
     Http (status_request s u) #
     (if reports (pending w i) ''in-progress'' \<and> Suc i < max_attempts
      then [Sleep (2 ^ in_progress_before w i)] else [])"

subsection \<open>Worlds used as examples, and the world after a status request\<close>

definition after_request :: "self \<Rightarrow> json \<Rightarrow> io \<Rightarrow> io" where
  "after_request s u w =
     w\<lparr>pending := (\<lambda>m. pending w (Suc m)), trace := trace w @ [Http (status_request s u)]\<rparr>"

definition status_answer :: "(string \<times> json) list \<Rightarrow> http_result" where
  "status_answer kvs = Responded \<lparr>status_code = 200, content = [], body = Some (JObj kvs)\<rparr>"

definition example_time :: datetime where
  "example_time = \<lparr>year = 2025, month = 1, day = 2, hour = 3, minute = 4, second = 5,
                    microsecond = 678901\<rparr>"

definition example_world :: io where
  "example_world =
     \<lparr>pending = (\<lambda>n. Unreachable), clock = (\<lambda>n. example_time), environ = (\<lambda>k. None),
      stdin = (\<lambda>n. None), can_open = (\<lambda>f. True), files = (\<lambda>f. None), trace = []\<rparr>"

definition example_self :: self where
  "example_self = \<lparr>yandex_token = ''token'', group_name = ''cats'', uploaded_files_info = []\<rparr>"

definition failed_then_success :: "nat \<Rightarrow> http_result" where
  "failed_then_success n =
     (if n = 0 then status_answer [(''status'', JStr ''failed''), (''message'', JStr ''disk full'')]
      else status_answer [(''status'', JStr ''success'')])"

subsection \<open>The upload request, and a world where the operation never completes\<close>

text \<open>The request of line 235.\<close>

definition upload_request :: "json \<Rightarrow> string \<Rightarrow> request" where
  "upload_request upload_url file_data =
     \<lparr>http_method = PUT, url = upload_url, headers = [], params = [],
      payload = Some file_data, timeout = 60\<rparr>"

definition json_answer :: "int \<Rightarrow> (string \<times> json) list \<Rightarrow> http_result" where
  "json_answer code kvs = Responded \<lparr>status_code = code, content = [], body = Some (JObj kvs)\<rparr>"

text \<open>
  The answers to an upload that is accepted (202, with the link of the operation) and
  then polled ten times without ever completing: the upload link, the answer to the PUT,
  ten times "in-progress", and the metadata of the file.
\<close>

definition never_completed :: "nat \<Rightarrow> http_result" where
  "never_completed n =
     (if n = 0 then json_answer 200 [(''href'', JStr ''https://uploader.example.org/target'')]
      else if n = 1 then json_answer 202 [(''href'', JStr ''https://example.org/operation'')]
      else if n < 12 then status_answer [(''status'', JStr ''in-progress'')]
      else json_answer 200 [(''size'', JNum 5), (''created'', JStr ''2025-01-02T03:04:05''),
                            (''modified'', JStr ''2025-01-02T03:04:06'')])"

definition never_completed_world :: io where
  "never_completed_world = example_world\<lparr>pending := never_completed\<rparr>"

text \<open>The request of lines 133 to 138.\<close>

definition upload_url_request :: "self \<Rightarrow> string \<Rightarrow> request" where
  "upload_url_request s remote_path =
     \<lparr>http_method = GET, url = JStr (YANDEX_API_BASE_URL @ ''/resources/upload''),
      headers = get_authorization_headers s,
      params = [(''path'', remote_path), (''overwrite'', ''true'')],
      payload = None, timeout = REQUEST_TIMEOUT\<rparr>"

text \<open>The world after the first \<open>n\<close> HTTP calls, which were the requests \<open>rqs\<close>.\<close>

definition after_requests :: "request list \<Rightarrow> io \<Rightarrow> io" where
  "after_requests rqs w =
     w\<lparr>pending := (\<lambda>m. pending w (m + length rqs)), trace := trace w @ map Http rqs\<rparr>"

subsection \<open>The other requests of the program\<close>

text \<open>The request of lines 81 to 86.\<close>

definition mkdir_request :: "self \<Rightarrow> string \<Rightarrow> request" where
  "mkdir_request s directory_path =
     \<lparr>http_method = PUT, url = JStr (YANDEX_API_BASE_URL @ ''/resources''),
      headers = get_authorization_headers s, params = [(''path'', directory_path)],
      payload = None, timeout = REQUEST_TIMEOUT\<rparr>"

text \<open>The request of line 54.\<close>

definition download_request :: "string \<Rightarrow> request" where
  "download_request text =
     \<lparr>http_method = GET, url = JStr (CAT_API_BASE_URL @ ''/'' @ text), headers = [],
      params = [], payload = None, timeout = REQUEST_TIMEOUT\<rparr>"

text \<open>The request of lines 161 to 166.\<close>

definition metadata_request :: "self \<Rightarrow> string \<Rightarrow> request" where
  "metadata_request s remote_path =
     \<lparr>http_method = GET, url = JStr (YANDEX_API_BASE_URL @ ''/resources''),
      headers = get_authorization_headers s, params = [(''path'', remote_path)],
      payload = None, timeout = REQUEST_TIMEOUT\<rparr>"

text \<open>A world whose next answer has the given status code and an empty body.\<close>

definition answering :: "int \<Rightarrow> io" where
  "answering code =
     example_world\<lparr>pending := (\<lambda>n. Responded \<lparr>status_code = code, content = ''image'',
                                               body = None\<rparr>)\<rparr>"

subsection \<open>The sanitised text\<close>


subsection \<open>A run in which everything succeeds\<close>

text \<open>
  The token and the folder name come from the environment and the user types the text
  \<open>hello cat\<close>. The five HTTP calls are answered: folder created (201), the image, the
  upload link, upload done (201, no body), the metadata.
\<close>

definition happy_answers :: "nat \<Rightarrow> http_result" where
  "happy_answers n =
     (if n = 0 then Responded \<lparr>status_code = 201, content = [], body = None\<rparr>
      else if n = 1 then Responded \<lparr>status_code = 200, content = ''image'', body = None\<rparr>
      else if n = 2 then json_answer 200 [(''href'', JStr ''https://uploader.example.org/target'')]
      else if n = 3 then Responded \<lparr>status_code = 201, content = [], body = None\<rparr>
      else json_answer 200 [(''size'', JNum 5), (''created'', JStr ''2025-01-02T03:04:05''),
                            (''modified'', JStr ''2025-01-02T03:04:06'')])"

definition happy_world :: io where
  "happy_world =
     example_world\<lparr>pending := happy_answers,
       environ := [''YANDEX_TOKEN'' \<mapsto> ''token'', ''GROUP_NAME'' \<mapsto> ''cats''],
       stdin := (\<lambda>n. Some ''hello cat'')\<rparr>"

definition happy_record :: json where
  "happy_record =
     JObj [(''name'', JStr ''hello_cat_20250102_030405_678.jpg''),
           (''path'', JStr ''/cats/hello_cat_20250102_030405_678.jpg''),
           (''size'', JNum 5),
           (''created'', JStr ''2025-01-02T03:04:05''),
           (''modified'', JStr ''2025-01-02T03:04:06'')]"

text \<open>The five requests of that run, in the order in which they are sent.\<close>

definition happy_requests :: "request list" where
  "happy_requests =
     [mkdir_request example_self ''/cats'',
      download_request ''hello cat'',
      upload_url_request example_self ''/cats/hello_cat_20250102_030405_678.jpg'',
      upload_request (JStr ''https://uploader.example.org/target'') ''image'',
      metadata_request example_self ''/cats/hello_cat_20250102_030405_678.jpg'']"

section \<open>Properties\<close>

subsection \<open>One attempt of the poll loop\<close>

lemma poll_try_io:
  assumes "poll_try s u a d w = (res, w')"
  shows "w' = w\<lparr>pending := (\<lambda>m. pending w (Suc m)),
                trace := trace w @ Http (status_request s u) #
                  (if reports (pending w 0) ''in-progress'' \<and> Suc a < max_attempts
                   then [Sleep d] else [])\<rparr>"
  using assms
  by (auto simp: poll_try_def send_def status_request_def raise_for_status_def
        response_json_def sleep_def max_attempts_def
      split: http_result.splits sum.splits option.splits json.splits if_splits)

lemma poll_try_next:
  assumes "poll_try s u a d w = (Inr (Next_attempt d'), w')"
  shows "d' = (if reports (pending w 0) ''in-progress'' \<and> Suc a < max_attempts
               then d * 2 else d)"
  using assms
  by (auto simp: poll_try_def send_def raise_for_status_def response_json_def sleep_def
        max_attempts_def
      split: http_result.splits sum.splits option.splits json.splits if_splits)

lemma poll_try_raises:
  assumes "poll_try s u a d w = (Inl e, w')"
  shows "\<not> reports (pending w 0) ''in-progress''"
  using assms
  by (auto simp: poll_try_def send_def raise_for_status_def response_json_def sleep_def
        max_attempts_def
      split: http_result.splits sum.splits option.splits json.splits if_splits)

subsection \<open>The trace of the poll loop\<close>

lemma upt_Suc_shift: "[0..<Suc n] = 0 # map Suc [0..<n]"
  by (simp add: upt_conv_Cons map_Suc_upt del: upt_Suc)

lemma in_progress_before_Suc:
  "in_progress_before w (Suc i) =
     (if reports (pending w 0) ''in-progress'' then 1 else 0) +
     in_progress_before (w\<lparr>pending := (\<lambda>m. pending w (Suc m)), trace := t\<rparr>) i"
  by (simp add: in_progress_before_def upt_Suc_shift filter_map o_def del: upt_Suc)

lemma loop_events_shift:
  assumes "d' = (if reports (pending w 0) ''in-progress'' \<and> Suc a < max_attempts
                 then d * 2 else d)"
  shows "loop_events s u (Suc a) d' (w\<lparr>pending := (\<lambda>m. pending w (Suc m)), trace := t\<rparr>) i =
         loop_events s u a d w (Suc i)"
  using assms by (auto simp: loop_events_def in_progress_before_Suc [where t = t])

lemma wait_loop_step:
  assumes w1: "w1 = w\<lparr>pending := (\<lambda>m. pending w (Suc m)),
                trace := trace w @ Http (status_request s u) #
                  (if reports (pending w 0) ''in-progress'' \<and> Suc a < max_attempts
                   then [Sleep d] else [])\<rparr>"
    and d': "d' = (if reports (pending w 0) ''in-progress'' \<and> Suc a < max_attempts
                   then d * 2 else d)"
    and n: "n \<le> max_attempts - Suc a"
    and r: "snd r = w1\<lparr>pending := (\<lambda>m. pending w1 (m + n)),
               trace := trace w1 @ concat (map (loop_events s u (Suc a) d' w1) [0..<n])\<rparr>"
    and a: "a < max_attempts"
  shows "\<exists>n. 0 < n \<and> n \<le> max_attempts - a \<and>
           snd r = w\<lparr>pending := (\<lambda>m. pending w (m + n)),
                     trace := trace w @ concat (map (loop_events s u a d w) [0..<n])\<rparr>"
proof -
  have shift: "map (loop_events s u (Suc a) d' w1) [0..<n] =
               map (loop_events s u a d w \<circ> Suc) [0..<n]"
    unfolding w1 using loop_events_shift [OF d'] by simp
  have first: "loop_events s u a d w 0 = Http (status_request s u) #
                 (if reports (pending w 0) ''in-progress'' \<and> Suc a < max_attempts
                  then [Sleep d] else [])"
    by (simp add: loop_events_def in_progress_before_def)
  have tr: "trace w1 @ concat (map (loop_events s u (Suc a) d' w1) [0..<n]) =
            trace w @ concat (map (loop_events s u a d w) [0..<Suc n])"
    unfolding shift upt_Suc_shift by (simp add: w1 first del: upt_Suc)
  have "snd r = w\<lparr>pending := (\<lambda>m. pending w (m + Suc n)),
                  trace := trace w @ concat (map (loop_events s u a d w) [0..<Suc n])\<rparr>"
    unfolding r tr by (simp add: w1)
  moreover have "Suc n \<le> max_attempts - a" using n a by simp
  ultimately show ?thesis by blast
qed

lemma wait_loop_trace:
  "\<exists>n. (a < max_attempts \<longrightarrow> 0 < n) \<and> n \<le> max_attempts - a \<and>
     snd (wait_loop s u a d w) =
       w\<lparr>pending := (\<lambda>m. pending w (m + n)),
         trace := trace w @ concat (map (loop_events s u a d w) [0..<n])\<rparr>"
proof (induction s u a d w rule: wait_loop.induct)
  case (1 s u a d w)
  show ?case
  proof (cases "a < max_attempts")
    case False
    then have "snd (wait_loop s u a d w) = w" by (subst wait_loop.simps) simp
    with False show ?thesis by (intro exI [of _ 0]) simp
  next
    case True
    obtain res w1 where pt: "poll_try s u a d w = (res, w1)"
      by (cases "poll_try s u a d w")
    note w1 = poll_try_io [OF pt]
    have stop: "\<exists>n. 0 < n \<and> n \<le> max_attempts - a \<and>
        w1 = w\<lparr>pending := (\<lambda>m. pending w (m + n)),
               trace := trace w @ concat (map (loop_events s u a d w) [0..<n])\<rparr>"
    proof (intro exI [of _ 1] conjI)
      show "1 \<le> max_attempts - a" using True by simp
      show "w1 = w\<lparr>pending := (\<lambda>m. pending w (m + 1)),
               trace := trace w @ concat (map (loop_events s u a d w) [0..<1])\<rparr>"
        by (subst w1) (simp add: loop_events_def in_progress_before_def)
    qed simp
    have "\<exists>n. 0 < n \<and> n \<le> max_attempts - a \<and>
       snd (wait_loop s u a d w) =
         w\<lparr>pending := (\<lambda>m. pending w (m + n)),
           trace := trace w @ concat (map (loop_events s u a d w) [0..<n])\<rparr>"
    proof (cases res)
      case (Inr fl)
      show ?thesis
      proof (cases fl)
        case Return
        with Inr pt True have "snd (wait_loop s u a d w) = w1"
          by (subst wait_loop.simps) simp
        with stop show ?thesis by simp
      next
        case (Next_attempt d')
        have d': "d' = (if reports (pending w 0) ''in-progress'' \<and> Suc a < max_attempts
                        then d * 2 else d)"
          using poll_try_next pt Inr Next_attempt by blast
        from "1.IH"(2) [OF True pt [symmetric] Inr Next_attempt]
        obtain n where n: "n \<le> max_attempts - Suc a"
          and r: "snd (wait_loop s u (Suc a) d' w1) =
                   w1\<lparr>pending := (\<lambda>m. pending w1 (m + n)),
                      trace := trace w1 @
                        concat (map (loop_events s u (Suc a) d' w1) [0..<n])\<rparr>"
          by (elim exE conjE) (rule that)
        have eq: "wait_loop s u a d w = wait_loop s u (Suc a) d' w1"
          using True pt Inr Next_attempt by (subst wait_loop.simps) simp
        show ?thesis unfolding eq by (rule wait_loop_step [OF w1 d' n r True])
      qed
    next
      case (Inl e)
      show ?thesis
      proof (cases "is_RequestException e \<and> a \<noteq> max_attempts - 1")
        case False
        with Inl pt True have "snd (wait_loop s u a d w) = w1"
          by (subst wait_loop.simps) auto
        with stop show ?thesis by simp
      next
        case retry: True
        have d': "d = (if reports (pending w 0) ''in-progress'' \<and> Suc a < max_attempts
                       then d * 2 else d)"
          using poll_try_raises pt Inl by auto
        from retry have e: "is_RequestException e" and last: "a \<noteq> max_attempts - 1"
          by simp_all
        from "1.IH"(1) [OF True pt [symmetric] Inl e last]
        obtain n where n: "n \<le> max_attempts - Suc a"
          and r: "snd (wait_loop s u (Suc a) d w1) =
                   w1\<lparr>pending := (\<lambda>m. pending w1 (m + n)),
                      trace := trace w1 @
                        concat (map (loop_events s u (Suc a) d w1) [0..<n])\<rparr>"
          by (elim exE conjE) (rule that)
        have eq: "wait_loop s u a d w = wait_loop s u (Suc a) d w1"
          using True pt Inl retry by (subst wait_loop.simps) simp
        show ?thesis unfolding eq by (rule wait_loop_step [OF w1 d' n r True])
      qed
    qed
    then obtain n where "0 < n" and "n \<le> max_attempts - a"
      and "snd (wait_loop s u a d w) =
         w\<lparr>pending := (\<lambda>m. pending w (m + n)),
           trace := trace w @ concat (map (loop_events s u a d w) [0..<n])\<rparr>"
      by (elim exE conjE) (rule that)
    then show ?thesis by (intro exI [of _ n] conjI impI)
  qed
qed

lemma loop_events_start: "loop_events s u 0 1 w = poll_events s u w"
  by (rule ext) (simp add: loop_events_def poll_events_def)



subsection \<open>What the loop does on each kind of answer\<close>

lemma poll_try_in_progress:
  assumes "reports (pending w 0) ''in-progress''"
  shows "poll_try s u a d w =
           (if Suc a < max_attempts
            then (Inr (Next_attempt (d * 2)), sleep d (after_request s u w))
            else (Inr (Next_attempt d), after_request s u w))"
  using assms
  by (cases "pending w 0")
     (auto simp: poll_try_def send_def response_json_def after_request_def status_request_def
        max_attempts_def split: option.splits json.splits)

lemma poll_try_success:
  assumes "reports (pending w 0) ''success''"
  shows "poll_try s u a d w = (Inr Return, after_request s u w)"
  using assms
  by (cases "pending w 0")
     (auto simp: poll_try_def send_def response_json_def after_request_def status_request_def
        split: option.splits json.splits)

lemma poll_try_failed:
  assumes "reports (pending w 0) ''failed''"
  shows "\<exists>m. poll_try s u a d w = (Inl (RequestException (OperationFailed m)), after_request s u w)"
  using assms
  by (cases "pending w 0")
     (auto simp: poll_try_def send_def response_json_def after_request_def status_request_def
        split: option.splits json.splits)

lemma wait_loop_success_step:
  assumes "a < max_attempts" and "reports (pending w 0) ''success''"
  shows "wait_loop s u a d w = (Inr (), after_request s u w)"
  using assms(1) poll_try_success [OF assms(2), of s u a d]
  by (subst wait_loop.simps) simp

lemma wait_loop_in_progress_step:
  assumes "Suc a < max_attempts" and "reports (pending w 0) ''in-progress''"
  shows "wait_loop s u a d w = wait_loop s u (Suc a) (d * 2) (sleep d (after_request s u w))"
  using assms(1) poll_try_in_progress [OF assms(2), of s u a d]
  by (subst wait_loop.simps) simp

lemma wait_loop_in_progress_last:
  assumes "Suc a = max_attempts" and "reports (pending w 0) ''in-progress''"
  shows "wait_loop s u a d w = (Inr (), after_request s u w)"
proof -
  have "wait_loop s u a d w = wait_loop s u (Suc a) d (after_request s u w)"
    using assms(1) poll_try_in_progress [OF assms(2), of s u a d]
    by (subst wait_loop.simps) simp
  also have "\<dots> = (Inr (), after_request s u w)"
    using assms(1) by (subst wait_loop.simps) simp
  finally show ?thesis .
qed

lemma wait_loop_failed_step:
  assumes "Suc a < max_attempts" and "reports (pending w 0) ''failed''"
  shows "wait_loop s u a d w = wait_loop s u (Suc a) d (after_request s u w)"
proof -
  from poll_try_failed [OF assms(2), of s u a d]
  obtain m where "poll_try s u a d w =
      (Inl (RequestException (OperationFailed m)), after_request s u w)" ..
  moreover from assms(1) have "a < max_attempts" and "a \<noteq> max_attempts - 1" by simp_all
  ultimately show ?thesis by (subst wait_loop.simps) simp
qed

lemma wait_loop_failed_last:
  assumes "Suc a = max_attempts" and "reports (pending w 0) ''failed''"
  shows "\<exists>m. wait_loop s u a d w =
           (Inl (RequestException (AttemptsExhausted max_attempts
                   (RequestException (OperationFailed m)))), after_request s u w)"
proof -
  from poll_try_failed [OF assms(2), of s u a d]
  obtain m where "poll_try s u a d w =
      (Inl (RequestException (OperationFailed m)), after_request s u w)" ..
  with assms(1) have "wait_loop s u a d w =
           (Inl (RequestException (AttemptsExhausted max_attempts
                   (RequestException (OperationFailed m)))), after_request s u w)"
    by (subst wait_loop.simps) auto
  then show ?thesis ..
qed

lemma reports_failed_then_success:
  "reports (failed_then_success 0) ''failed''" "reports (failed_then_success (Suc n)) ''success''"
  by (simp_all add: failed_then_success_def status_answer_def raise_for_status_def)

text \<open>
  C2. The claim says that a "failed" answer raises at once. The \<open>raise\<close> of line 202
  stands inside the \<open>try\<close> block, so the \<open>except\<close> clause of line 211 catches it, and at
  any attempt but the last the loop simply goes on. Here the first answer reports "failed"
  (with the message "disk full") and the second "success": the function asks a second time
  and returns normally, although its documentation promises a \<open>RequestException\<close> when the
  operation fails.
\<close>

theorem failed_status_is_not_raised:
  "wait_for_operation_completion example_self (JStr ''https://example.org/operation'')
     (example_world\<lparr>pending := failed_then_success\<rparr>) =
   (Inr (),
    example_world\<lparr>pending := (\<lambda>m. failed_then_success (Suc (Suc m))),
      trace := [Http (status_request example_self (JStr ''https://example.org/operation'')),
                Http (status_request example_self (JStr ''https://example.org/operation''))]\<rparr>)"
  unfolding wait_for_operation_completion_def
  by (simp add: wait_loop_failed_step wait_loop_success_step reports_failed_then_success
        max_attempts_def after_request_def example_world_def)

subsection \<open>An operation that never completes\<close>

lemma wait_loop_all_in_progress:
  assumes "\<forall>i. a + i < max_attempts \<longrightarrow> reports (pending w i) ''in-progress''"
  shows "fst (wait_loop s u a d w) = Inr () \<and>
         length (filter is_http (trace (snd (wait_loop s u a d w)))) =
           length (filter is_http (trace w)) + (max_attempts - a)"
  using assms
proof (induction k \<equiv> "max_attempts - a" arbitrary: a d w)
  case 0
  then have "wait_loop s u a d w = (Inr (), w)" by (subst wait_loop.simps) simp
  with 0 show ?case by simp
next
  case (Suc k)
  from Suc.hyps(2) have a: "a < max_attempts" by simp
  with Suc.prems [rule_format, of 0] have r0: "reports (pending w 0) ''in-progress''" by simp
  show ?case
  proof (cases "Suc a = max_attempts")
    case True
    then show ?thesis
      by (simp add: wait_loop_in_progress_last [OF True r0] after_request_def)
  next
    case False
    with a have lt: "Suc a < max_attempts" by simp
    let ?w1 = "sleep d (after_request s u w)"
    have k: "k = max_attempts - Suc a" using Suc.hyps(2) by simp
    have "\<forall>i. Suc a + i < max_attempts \<longrightarrow> reports (pending ?w1 i) ''in-progress''"
      using Suc.prems by (simp add: sleep_def after_request_def)
    from Suc.hyps(1) [OF k this, of "d * 2"] lt show ?thesis
      by (simp add: wait_loop_in_progress_step [OF lt r0] sleep_def after_request_def)
  qed
qed

subsection \<open>When the upload is polled\<close>

lemma upload_try_polled:
  assumes "get_upload_url s remote_path w0 = (Inr upload_url, w1)"
    and "send (upload_request upload_url file_data) w1 = (Inr r, w)"
    and "status_code r = 202"
    and "body r = Some (JObj kvs)"
    and "map_of kvs ''href'' = Some u"
    and "truthy u"
  shows "upload_try s file_data filename remote_path w0 =
           (case wait_for_operation_completion s u w of
              (Inl e, w3) \<Rightarrow> (Inl e, w3)
            | (Inr x, w3) \<Rightarrow> file_record s file_data filename remote_path w3)"
  using assms
  by (simp add: upload_try_def upload_request_def raise_for_status_def response_json_def
        split: prod.splits sum.splits)

text \<open>
  C8. When every one of the ten attempts is answered "in-progress",
  \<open>_wait_for_operation_completion\<close> has issued ten requests and returns normally, with
  the same result as when the first answer reports "success". Its caller cannot tell the
  two apart: after the accepted upload it goes on to fetch the metadata and build the
  record.
\<close>

theorem never_completed_operation_returns_normally:
  assumes "\<forall>i<max_attempts. reports (pending w i) ''in-progress''"
    and "reports (pending w' 0) ''success''"
    and "get_upload_url s remote_path w0 = (Inr upload_url, w1)"
    and "send (upload_request upload_url file_data) w1 = (Inr r, w)"
    and "status_code r = 202"
    and "body r = Some (JObj kvs)"
    and "map_of kvs ''href'' = Some u"
    and "truthy u"
  shows "fst (wait_for_operation_completion s u w) = Inr () \<and>
         length (filter is_http (trace (snd (wait_for_operation_completion s u w)))) =
           length (filter is_http (trace w)) + 10 \<and>
         fst (wait_for_operation_completion s u w') = fst (wait_for_operation_completion s u w) \<and>
         upload_try s file_data filename remote_path w0 =
           file_record s file_data filename remote_path
             (snd (wait_for_operation_completion s u w))"
proof -
  from assms(1) have "\<forall>i. 0 + i < max_attempts \<longrightarrow> reports (pending w i) ''in-progress''"
    by simp
  from wait_loop_all_in_progress [OF this, of s u 1]
  have ok: "fst (wait_for_operation_completion s u w) = Inr ()"
    and n: "length (filter is_http (trace (snd (wait_for_operation_completion s u w)))) =
           length (filter is_http (trace w)) + 10"
    by (simp_all add: wait_for_operation_completion_def max_attempts_def)
  have same: "fst (wait_for_operation_completion s u w') = Inr ()"
    unfolding wait_for_operation_completion_def
    by (simp add: wait_loop_success_step [OF _ assms(2)] max_attempts_def)
  have "upload_try s file_data filename remote_path w0 =
           file_record s file_data filename remote_path
             (snd (wait_for_operation_completion s u w))"
    using ok
    by (subst upload_try_polled [OF assms(3-8)])
       (cases "wait_for_operation_completion s u w", simp)
  with ok n same show ?thesis by simp
qed

theorem never_completed_operation_witness:
  "fst (wait_for_operation_completion example_self (JStr ''https://example.org/operation'')
         (after_requests
            [upload_url_request example_self ''/cats/cat.jpg'',
             upload_request (JStr ''https://uploader.example.org/target'') ''image'']
            never_completed_world)) = Inr () \<and>
   upload_try example_self ''image'' ''cat.jpg'' ''/cats/cat.jpg'' never_completed_world =
     file_record example_self ''image'' ''cat.jpg'' ''/cats/cat.jpg''
       (snd (wait_for_operation_completion example_self (JStr ''https://example.org/operation'')
          (after_requests
            [upload_url_request example_self ''/cats/cat.jpg'',
             upload_request (JStr ''https://uploader.example.org/target'') ''image'']
            never_completed_world)))"
proof -
  let ?w1 = "after_requests [upload_url_request example_self ''/cats/cat.jpg'']
               never_completed_world"
  let ?w = "after_requests
            [upload_url_request example_self ''/cats/cat.jpg'',
             upload_request (JStr ''https://uploader.example.org/target'') ''image'']
            never_completed_world"
  let ?w' = "example_world\<lparr>pending := (\<lambda>n. status_answer [(''status'', JStr ''success'')])\<rparr>"
  let ?r = "\<lparr>status_code = 202, content = [],
             body = Some (JObj [(''href'', JStr ''https://example.org/operation'')])\<rparr>"
  have h1: "\<forall>i<max_attempts. reports (pending ?w i) ''in-progress''"
    by (simp add: after_requests_def never_completed_world_def never_completed_def
          status_answer_def raise_for_status_def max_attempts_def)
  have h2: "reports (pending ?w' 0) ''success''"
    by (simp add: status_answer_def raise_for_status_def)
  have h3: "get_upload_url example_self ''/cats/cat.jpg'' never_completed_world =
              (Inr (JStr ''https://uploader.example.org/target''), ?w1)"
    by (simp add: get_upload_url_def send_def never_completed_world_def never_completed_def
          json_answer_def raise_for_status_def response_json_def except_RequestException_def
          after_requests_def upload_url_request_def)
  have h4: "send (upload_request (JStr ''https://uploader.example.org/target'') ''image'') ?w1 =
              (Inr ?r, ?w)"
    by (simp add: send_def never_completed_world_def never_completed_def json_answer_def
          after_requests_def)
  from never_completed_operation_returns_normally
         [OF h1 h2 h3 h4, of "[(''href'', JStr ''https://example.org/operation'')]"
            "JStr ''https://example.org/operation''" "''cat.jpg''"]
  show ?thesis by simp
qed

subsection \<open>Creating the remote folder\<close>

text \<open>
  C3, as amended. \<open>_create_remote_directory\<close> sends the one PUT request. When the
  answer has status 409 it returns normally. For any other status from 400 to 599 (the
  statuses for which \<open>raise_for_status\<close> raises) it raises a \<open>RequestException\<close>
  whose message holds the path and the HTTP error, and so it does when the request times
  out or fails in transport. For every other status (below 400, or 600 and above) it
  returns normally.
\<close>

theorem create_remote_directory_result:
  "create_remote_directory s directory_path w =
     ((case pending w 0 of
         TimedOut \<Rightarrow> Inl (RequestException (CreateDirError directory_path Timeout))
       | Unreachable \<Rightarrow> Inl (RequestException (CreateDirError directory_path ConnectionError))
       | Responded r \<Rightarrow>
           if status_code r = 409 then Inr ()
           else if 400 \<le> status_code r \<and> status_code r < 600
           then Inl (RequestException (CreateDirError directory_path (HTTPError (status_code r))))
           else Inr ()),
      after_requests [mkdir_request s directory_path] w)"
  by (simp add: create_remote_directory_def send_def raise_for_status_def
        except_RequestException_def after_requests_def mkdir_request_def
      split: http_result.splits)

text \<open>
  C3 as it was stated fails: 304 (Not Modified) is no success status and is not 409, yet
  the function returns normally, since \<open>raise_for_status\<close> accepts it.
\<close>

theorem create_remote_directory_not_modified:
  "pending (answering 304) 0 =
     Responded \<lparr>status_code = 304, content = ''image'', body = None\<rparr> \<and>
   fst (create_remote_directory example_self ''/cats'' (answering 304)) = Inr ()"
  by (simp add: create_remote_directory_def send_def raise_for_status_def answering_def)

subsection \<open>Downloading the image\<close>

text \<open>
  C7. For every text, \<open>_download_cat_image\<close> sends one GET request, to the URL made of
  the base \<open>https://cataas.com/cat/says\<close>, a slash and the text. It returns the content
  of the response when the status is no error, and raises a \<open>RequestException\<close> on
  every failure of the request: a timeout, another transport failure, or an error status.
\<close>

theorem download_cat_image_result:
  "download_cat_image s text w =
     ((case pending w 0 of
         TimedOut \<Rightarrow>
           Inl (RequestException (DownloadTimeout (JStr (''https://cataas.com/cat/says/'' @ text))))
       | Unreachable \<Rightarrow> Inl (RequestException (DownloadError ConnectionError))
       | Responded r \<Rightarrow>
           if 400 \<le> status_code r \<and> status_code r < 600
           then Inl (RequestException (DownloadError (HTTPError (status_code r))))
           else Inr (content r)),
      after_requests [download_request text] w) \<and>
   url (download_request text) = JStr (''https://cataas.com/cat/says'' @ ''/'' @ text)"
  by (simp add: download_cat_image_def send_def raise_for_status_def download_except_def
        after_requests_def download_request_def CAT_API_BASE_URL_def Let_def
      split: http_result.splits)

subsection \<open>The file name\<close>












subsection \<open>Evaluating the successful run\<close>

lemma zero_pad_2: "zero_pad 2 n = [digit_char (n div 10), digit_char n]"
  by (simp add: zero_pad_def upt_rec)

lemma zero_pad_4:
  "zero_pad 4 n =
     [digit_char (n div 1000), digit_char (n div 100), digit_char (n div 10), digit_char n]"
  by (simp add: zero_pad_def upt_rec)

lemma zero_pad_6:
  "zero_pad 6 n =
     [digit_char (n div 100000), digit_char (n div 10000), digit_char (n div 1000),
      digit_char (n div 100), digit_char (n div 10), digit_char n]"
  by (simp add: zero_pad_def upt_rec)

lemma strftime_example: "strftime_stamp example_time = ''20250102_030405_678901''"
  by (simp add: strftime_stamp_def example_time_def zero_pad_2 zero_pad_4 zero_pad_6
        digit_char_def)

lemma generate_filename_example:
  assumes "clock w 0 = example_time"
  shows "generate_filename s ''hello cat'' w =
     (''hello_cat_20250102_030405_678.jpg'', w\<lparr>clock := (\<lambda>n. clock w (Suc n))\<rparr>)"
  using assms
  by (simp add: generate_filename_def now_def strftime_example forbidden_chars_def
        str_replace_def)

lemma backup_cat_image_happy:
  assumes "pending w = happy_answers" and "clock w = (\<lambda>n. example_time)"
  shows "fst (backup_cat_image example_self ''hello cat'' w) = Inr happy_record"
    and "fst (snd (backup_cat_image example_self ''hello cat'' w)) =
           example_self\<lparr>uploaded_files_info := [happy_record]\<rparr>"
    and "trace (snd (snd (backup_cat_image example_self ''hello cat'' w))) =
           trace w @ map Http happy_requests"
    and "can_open (snd (snd (backup_cat_image example_self ''hello cat'' w))) = can_open w"
    and "clock (snd (snd (backup_cat_image example_self ''hello cat'' w))) 0 = example_time"
  using assms
  by (simp_all add: backup_cat_image_def create_remote_directory_def download_cat_image_def
        upload_file_to_disk_def upload_try_def get_upload_url_def file_record_def
        get_file_metadata_def send_def raise_for_status_def response_json_def now_def
        happy_answers_def json_answer_def generate_filename_example Let_def
        mkdir_request_def download_request_def upload_url_request_def upload_request_def
        metadata_request_def example_self_def happy_record_def happy_requests_def)

subsection \<open>The list of records\<close>

text \<open>
  C10. \<open>backup_cat_image\<close> touches \<open>_uploaded_files_info\<close> in its last step only: when
  it returns a record, the object is the old one with exactly that record appended to the
  list; when any step raises (folder creation, download, upload, polling, metadata), the
  object is unchanged.
\<close>

theorem backup_cat_image_atomic:
  "(backup_cat_image s text w = (Inr file_info, s', w') \<longrightarrow>
      s' = s\<lparr>uploaded_files_info := uploaded_files_info s @ [file_info]\<rparr>) \<and>
   (backup_cat_image s text w = (Inl e, s', w') \<longrightarrow> s' = s)"
  by (auto simp: backup_cat_image_def Let_def split: prod.splits sum.splits)

theorem backup_cat_image_atomic_witness:
  "fst (snd (backup_cat_image example_self ''hello cat'' happy_world)) =
     example_self\<lparr>uploaded_files_info := uploaded_files_info example_self @ [happy_record]\<rparr> \<and>
   fst (backup_cat_image example_self ''hello cat'' (answering 403)) =
     Inl (RequestException (CreateDirError ''/cats'' (HTTPError 403))) \<and>
   fst (snd (backup_cat_image example_self ''hello cat'' (answering 403))) = example_self"
proof -
  let ?ok = "backup_cat_image example_self ''hello cat'' happy_world"
  let ?bad = "backup_cat_image example_self ''hello cat'' (answering 403)"
  have w: "pending happy_world = happy_answers" "clock happy_world = (\<lambda>n. example_time)"
    by (simp_all add: happy_world_def example_world_def)
  have "?ok = (Inr happy_record, fst (snd ?ok), snd (snd ?ok))"
    using backup_cat_image_happy(1) [OF w] by (cases ?ok) simp
  with backup_cat_image_atomic [of example_self "''hello cat''" happy_world happy_record
         "fst (snd ?ok)" "snd (snd ?ok)"]
  have ok: "fst (snd ?ok) =
      example_self\<lparr>uploaded_files_info := uploaded_files_info example_self @ [happy_record]\<rparr>"
    by simp
  have raised: "fst ?bad = Inl (RequestException (CreateDirError ''/cats'' (HTTPError 403)))"
    by (simp add: backup_cat_image_def create_remote_directory_def send_def answering_def
          raise_for_status_def except_RequestException_def example_self_def)
  then have "?bad = (Inl (RequestException (CreateDirError ''/cats'' (HTTPError 403))),
                     fst (snd ?bad), snd (snd ?bad))"
    by (cases ?bad) simp
  with backup_cat_image_atomic [of example_self "''hello cat''" "answering 403" _
         "fst (snd ?bad)" "snd (snd ?bad)"
         "RequestException (CreateDirError ''/cats'' (HTTPError 403))"]
  have "fst (snd ?bad) = example_self" by simp
  with ok raised show ?thesis by simp
qed

subsection \<open>What the effects leave alone\<close>

lemma send_io:
  "snd (send rq w) = after_requests [rq] w"
  by (simp add: send_def after_requests_def)

lemma get_upload_url_io:
  "snd (get_upload_url s remote_path w) = after_requests [upload_url_request s remote_path] w"
  by (simp add: get_upload_url_def send_def after_requests_def upload_url_request_def
      split: http_result.splits sum.splits)

lemma get_file_metadata_io:
  "snd (get_file_metadata s remote_path w) = after_requests [metadata_request s remote_path] w"
  by (simp add: get_file_metadata_def send_def after_requests_def metadata_request_def
      split: http_result.splits sum.splits)

lemma wait_for_operation_completion_io:
  "\<exists>n>0. snd (wait_for_operation_completion s u w) =
      w\<lparr>pending := (\<lambda>m. pending w (m + n)),
        trace := trace w @ concat (map (poll_events s u w) [0..<n])\<rparr>"
proof -
  from wait_loop_trace [of 0 s u 1 w]
  obtain n where "0 < max_attempts \<longrightarrow> 0 < n"
    and "snd (wait_loop s u 0 1 w) =
        w\<lparr>pending := (\<lambda>m. pending w (m + n)),
          trace := trace w @ concat (map (loop_events s u 0 1 w) [0..<n])\<rparr>"
    by (elim exE conjE) (rule that)
  then have "0 < n \<and> snd (wait_for_operation_completion s u w) =
      w\<lparr>pending := (\<lambda>m. pending w (m + n)),
        trace := trace w @ concat (map (poll_events s u w) [0..<n])\<rparr>"
    by (simp add: wait_for_operation_completion_def loop_events_start [symmetric]
          max_attempts_def del: One_nat_def)
  then show ?thesis by (intro exI)
qed

lemma clock_wait [simp]: "clock (snd (wait_for_operation_completion s u w)) = clock w"
  using wait_for_operation_completion_io [of s u w] by auto

lemma clock_after_requests [simp]: "clock (after_requests rqs w) = clock w"
  by (simp add: after_requests_def)

subsection \<open>The record of an uploaded file\<close>

lemma file_record_result:
  assumes "file_record s file_data filename remote_path w = (Inr file_info, w')"
  shows "\<exists>kvs. fst (get_file_metadata s remote_path w) = Inr (JObj kvs) \<and>
           file_info = JObj
             [(''name'', JStr filename),
              (''path'', JStr remote_path),
              (''size'', case map_of kvs ''size'' of
                           None \<Rightarrow> JNum (int (length file_data)) | Some v \<Rightarrow> v),
              (''created'', case map_of kvs ''created'' of
                              None \<Rightarrow> JStr (isoformat (clock w 0)) | Some v \<Rightarrow> v),
              (''modified'', case map_of kvs ''modified'' of
                               None \<Rightarrow> JStr (isoformat (clock w 1)) | Some v \<Rightarrow> v)]"
proof -
  obtain res w1 where m: "get_file_metadata s remote_path w = (res, w1)"
    by (cases "get_file_metadata s remote_path w")
  then have "w1 = after_requests [metadata_request s remote_path] w"
    using get_file_metadata_io [of s remote_path w] by simp
  then have c: "clock w1 = clock w" by simp
  from assms m obtain meta where res: "res = Inr meta"
    by (cases res) (simp_all add: file_record_def)
  from assms m res obtain kvs where meta: "meta = JObj kvs"
    by (cases meta) (simp_all add: file_record_def)
  from assms m res meta show ?thesis
    by (auto simp: file_record_def now_def Let_def c cong: option.case_cong)
qed

lemma clock_wait_eq:
  "wait_for_operation_completion s u w = (res, w') \<Longrightarrow> clock w' = clock w"
  using clock_wait [of s u w] by simp

lemma clock_send_eq: "send rq w = (res, w') \<Longrightarrow> clock w' = clock w"
  using send_io [of rq w] by simp

lemma clock_get_upload_url_eq:
  "get_upload_url s remote_path w = (res, w') \<Longrightarrow> clock w' = clock w"
  using get_upload_url_io [of s remote_path w] by simp

lemma upload_try_result:
  assumes "upload_try s file_data filename remote_path w = (Inr file_info, w')"
  shows "\<exists>w2. file_record s file_data filename remote_path w2 = (Inr file_info, w') \<and>
              clock w2 = clock w"
proof -
  obtain r1 w1 where g: "get_upload_url s remote_path w = (r1, w1)"
    by (cases "get_upload_url s remote_path w")
  then have c1: "clock w1 = clock w" by (rule clock_get_upload_url_eq)
  from assms g obtain upload_url where r1: "r1 = Inr upload_url"
    by (cases r1) (simp_all add: upload_try_def)
  obtain r2 w2 where p: "send (upload_request upload_url file_data) w1 = (r2, w2)"
    by (cases "send (upload_request upload_url file_data) w1")
  then have c2: "clock w2 = clock w" using clock_send_eq c1 by metis
  from assms g r1 p obtain r where r2: "r2 = Inr r"
    by (cases r2) (simp_all add: upload_try_def upload_request_def)
  from assms g r1 p r2
  have "file_record s file_data filename remote_path w2 = (Inr file_info, w') \<or>
        (\<exists>u x w3. wait_for_operation_completion s u w2 = (x, w3) \<and>
           file_record s file_data filename remote_path w3 = (Inr file_info, w'))"
    by (auto simp: upload_try_def upload_request_def split: prod.splits sum.splits if_splits)
  then show ?thesis
  proof
    assume "file_record s file_data filename remote_path w2 = (Inr file_info, w')"
    with c2 show ?thesis by blast
  next
    assume "\<exists>u x w3. wait_for_operation_completion s u w2 = (x, w3) \<and>
           file_record s file_data filename remote_path w3 = (Inr file_info, w')"
    then obtain u x w3 where "wait_for_operation_completion s u w2 = (x, w3)"
      and f: "file_record s file_data filename remote_path w3 = (Inr file_info, w')"
      by blast
    then have "clock w3 = clock w" using clock_wait_eq c2 by metis
    with f show ?thesis by blast
  qed
qed

end
